theory Spec2Isabelle
  imports Complex_Main
begin

unbundle bit_operations_syntax

section \<open>The MQ-135 air-quality loop of \<^verbatim>\<open>AQI_code.py\<close>\<close>

text \<open>
  The script polls an MQ-135 gas sensor through an MCP3008 converter, derives PPM and AQI,
  asks a compiled model for a second AQI and posts the five values to ThingsBoard, every
  five seconds, for ever.

  Conventions of the embedding.
  \<^item> Python numbers are modelled by their value: \<open>int\<close> where the source computes with
    integers (the converter's bits), \<open>real\<close> where it computes with floats. Float
    arithmetic is therefore exact here: rounding is not modelled.
  \<^item> Everything a function does besides returning is an \<open>event\<close>; a function returns the
    list of events it caused, in order, beside its result.
  \<^item> An exception is the result \<open>Inl e\<close>. The events that happened before the raise are
    kept.
  \<^item> The external collaborators (SPI bus, compiled model, HTTP client, clock) are not part
    of the script. What each of them answers in one cycle is an input of that cycle
    (\<open>cycle_env\<close>); each may answer with an exception. An interrupt from the keyboard is
    the exception \<open>KeyboardInterrupt\<close> raised by the call that was blocking.
  \<^item> The statements before the loop (opening the bus, loading and compiling the model)
    run once, outside the \<^verbatim>\<open>try\<close>, and are not modelled.
\<close>

subsection \<open>Values, exceptions, events\<close>

text \<open>
  \<open>ValueError\<close> is what \<^verbatim>\<open>math.log10\<close> raises outside its domain, \<open>IndexError\<close> what
  indexing a list raises out of range, \<open>Fault s\<close> any other subclass of \<^verbatim>\<open>Exception\<close>
  raised by a collaborator, with its text. \<open>KeyboardInterrupt\<close> is not a subclass of
  \<^verbatim>\<open>Exception\<close>.
\<close>

datatype exn = KeyboardInterrupt | ValueError | IndexError | Fault string

text \<open>
  \<open>Num\<close> is a number (an \<^verbatim>\<open>int\<close>, a \<^verbatim>\<open>float\<close> or a scalar of the model's runtime),
  \<open>Str\<close> a string, \<open>Arr\<close> an array of the model's runtime: an array of rank 1 holds
  numbers, an array of rank 2 holds arrays of rank 1.
\<close>

datatype pyval = Num real | Str string | Arr "pyval list"

fun is_number :: "pyval \<Rightarrow> bool" where
  "is_number (Num _) = True"
| "is_number (Str _) = False"
| "is_number (Arr _) = False"

text \<open>
  \<^verbatim>\<open>x[i]\<close> for an index that is not negative: the item of an array, the character of a
  string, \<^verbatim>\<open>IndexError\<close> out of range and on a scalar, which has no items.
\<close>

fun getitem :: "pyval \<Rightarrow> nat \<Rightarrow> exn + pyval" where
  "getitem (Arr xs) i = (if i < length xs then Inr (xs ! i) else Inl IndexError)"
| "getitem (Str cs) i = (if i < length cs then Inr (Str [cs ! i]) else Inl IndexError)"
| "getitem (Num _) i = Inl IndexError"

datatype level = INFO | WARNING | ERROR

type_synonym payload = "(string \<times> pyval) list"

text \<open>The field of an f-string: a value, the payload dictionary, or an exception.\<close>

datatype field = FVal pyval | FDict payload | FExn exn

datatype event =
    Logged level string "field list"
  | Xfer2 "int list"
  | Infer "int list list list"
  | Post string "(string \<times> string) list" payload
  | Slept nat

type_synonym 'a io = "(exn + 'a) \<times> event list"

text \<open>Sequencing: the second step runs only if the first did not raise.\<close>

definition bind_io :: "'a io \<Rightarrow> ('a \<Rightarrow> 'b io) \<Rightarrow> 'b io" where
  "bind_io m f =
     (case m of
        (Inl e, t) \<Rightarrow> (Inl e, t)
      | (Inr a, t) \<Rightarrow> (case f a of (r, t') \<Rightarrow> (r, t @ t')))"

record response =
  status_code :: int
  text_of :: string

record cycle_env =
  xfer2 :: "exn + int list"
  compiled_model :: "exn + pyval"
  post :: "exn + response"
  sleep :: "exn + unit"

subsection \<open>Constants\<close>

definition MQ135_CHANNEL :: int where
  "MQ135_CHANNEL = 0"

definition R0 :: real where
  "R0 = 10.0"

definition known_resistor_value :: real where
  "known_resistor_value = 10.0"

definition supply_voltage :: real where
  "supply_voltage = 3.3"

definition THINGSBOARD_HOST :: string where
  "THINGSBOARD_HOST = ''thingsboard.cloud''"

definition ACCESS_TOKEN :: string where
  "ACCESS_TOKEN = ''8ymecb4hog7tirg0mphd''"

subsection \<open>\<^verbatim>\<open>read_adc\<close>\<close>

text \<open>
  \<^verbatim>\<open>adc = spi.xfer2([1, (8 + channel) << 4, 0])\<close>,
  \<^verbatim>\<open>data = ((adc[1] & 3) << 8) + adc[2]\<close>. The second argument is the bus's answer;
  \<open>data\<close> is read only where both indices are in range.
\<close>

definition data :: "int list \<Rightarrow> int" where
  "data adc = push_bit 8 ((adc ! 1) AND 3) + adc ! 2"

definition read_adc :: "int \<Rightarrow> exn + int list \<Rightarrow> int io" where
  "read_adc channel answer =
     (let request = Xfer2 [1, push_bit 4 (8 + channel), 0] in
      case answer of
        Inl e \<Rightarrow> (Inl e, [request])
      | Inr adc \<Rightarrow>
          if length adc \<le> 2 then (Inl IndexError, [request])
          else
            (Inr (data adc),
             [request, Logged INFO ''Read ADC value: '' [FVal (Num (of_int (data adc)))]]))"

subsection \<open>\<^verbatim>\<open>calculate_ppm\<close>\<close>

text \<open>The three locals of \<^verbatim>\<open>calculate_ppm\<close>, as functions of its argument.\<close>

definition voltage :: "int \<Rightarrow> real" where
  "voltage analog_value = (of_int analog_value / 1023.0) * supply_voltage"

definition Rs :: "int \<Rightarrow> real" where
  "Rs analog_value =
     ((supply_voltage - voltage analog_value) / voltage analog_value) * known_resistor_value"

definition ratio :: "int \<Rightarrow> real" where
  "ratio analog_value = Rs analog_value / R0"

text \<open>
  \<^verbatim>\<open>math.log10(x)\<close> raises \<^verbatim>\<open>ValueError\<close> for \<open>x \<le> 0\<close>; \<^verbatim>\<open>math.pow(10, y)\<close> is
  \<open>10 powr y\<close>. (A float overflow of \<^verbatim>\<open>math.pow\<close> needs a positive ratio far below
  anything an integer sample gives, and is not modelled.)
\<close>

definition log10 :: "real \<Rightarrow> exn + real" where
  "log10 x = (if x \<le> 0 then Inl ValueError else Inr (log 10 x))"

definition calculate_ppm :: "int \<Rightarrow> (real \<times> real) io" where
  "calculate_ppm analog_value =
     (if voltage analog_value = 0
      then (Inr (0, 0), [Logged WARNING ''Voltage is zero, check sensor wiring.'' []])
      else
        let m = - 0.38; b = 1.2 in
        case log10 (ratio analog_value) of
          Inl e \<Rightarrow> (Inl e, [])
        | Inr l \<Rightarrow>
            let PPM = 10 powr ((l - b) / m) in
            (Inr (PPM, voltage analog_value),
             [Logged INFO ''Calculated PPM: '' [FVal (Num PPM)]]))"

subsection \<open>\<^verbatim>\<open>calculate_aqi\<close>\<close>

definition calculate_aqi :: "real \<Rightarrow> real \<times> event list" where
  "calculate_aqi ppm =
     (let AQI_low = 0; AQI_high = 50; PPM_low = 0; PPM_high = 500 in
      if ppm > PPM_high
      then (500, [Logged WARNING ''PPM exceeds standard limits, cannot calculate AQI.'' []])
      else
        let AQI = ((AQI_high - AQI_low) / (PPM_high - PPM_low)) * (ppm - PPM_low) + AQI_low in
        (AQI, [Logged INFO ''Calculated AQI: '' [FVal (Num AQI)]]))"

subsection \<open>\<^verbatim>\<open>predict_aqi_with_ai\<close>\<close>

text \<open>
  \<^verbatim>\<open>result = compiled_model([input_data])[output_layer]\<close>,
  \<^verbatim>\<open>predicted_aqi = result[0]\<close>. The second argument is \<^verbatim>\<open>result\<close>, the output of the
  compiled model, or the exception its call raised. The function indexes the output once
  and returns the item as it is.
\<close>

definition predict_aqi_with_ai :: "int \<Rightarrow> exn + pyval \<Rightarrow> pyval io" where
  "predict_aqi_with_ai analog_value answer =
     (let input_data = [[analog_value]] in
      case answer of
        Inl e \<Rightarrow> (Inl e, [Infer [input_data]])
      | Inr result \<Rightarrow>
          (case getitem result 0 of
             Inl e \<Rightarrow> (Inl e, [Infer [input_data]])
           | Inr predicted_aqi \<Rightarrow>
               (Inr predicted_aqi,
                [Infer [input_data],
                 Logged INFO ''Predicted AQI using AI: '' [FVal predicted_aqi]])))"

subsection \<open>\<^verbatim>\<open>send_data_to_thingsboard\<close>\<close>

text \<open>
  The second argument is what \<^verbatim>\<open>requests.post\<close> did: it returned a response, or raised
  (the network failed, or the payload could not be encoded as JSON). \<open>Post\<close> is the call,
  with its arguments. The function has no handler of its own.
\<close>

definition url :: string where
  "url = ''https://'' @ THINGSBOARD_HOST @ ''/api/v1/'' @ ACCESS_TOKEN @ ''/telemetry''"

definition headers :: "(string \<times> string) list" where
  "headers = [(''Content-Type'', ''application/json'')]"

definition send_data_to_thingsboard :: "payload \<Rightarrow> exn + response \<Rightarrow> unit io" where
  "send_data_to_thingsboard dat answer =
     (let request = Post url headers dat in
      case answer of
        Inl e \<Rightarrow> (Inl e, [request])
      | Inr response \<Rightarrow>
          if status_code response = 200
          then (Inr (), [request, Logged INFO ''Data sent successfully to ThingsBoard'' []])
          else (Inr (), [request,
                 Logged ERROR ''Error sending data to ThingsBoard: ''
                   [FVal (Str (text_of response))]]))"

subsection \<open>The main loop\<close>

definition time_sleep :: "nat \<Rightarrow> exn + unit \<Rightarrow> unit io" where
  "time_sleep secs answer = (answer, [Slept secs])"

definition build_payload :: "real \<Rightarrow> pyval \<Rightarrow> int \<Rightarrow> real \<Rightarrow> real \<Rightarrow> payload" where
  "build_payload aqi predicted_aqi analog_value v ppm =
     [(''airQualityIndex'', Num aqi),
      (''predictedAqi'', predicted_aqi),
      (''mq135_analog_values'', Num (of_int analog_value)),
      (''mq135_voltage'', Num v),
      (''ppm'', Num ppm)]"

text \<open>The body of \<^verbatim>\<open>while True\<close>, once.\<close>

definition cycle :: "cycle_env \<Rightarrow> unit io" where
  "cycle env =
     bind_io (read_adc MQ135_CHANNEL (xfer2 env)) (\<lambda>analog_value.
     bind_io (calculate_ppm analog_value) (\<lambda>(ppm, v).
     bind_io (case calculate_aqi ppm of (aqi, t) \<Rightarrow> (Inr aqi, t)) (\<lambda>aqi.
     bind_io (predict_aqi_with_ai analog_value (compiled_model env)) (\<lambda>predicted_aqi.
     bind_io (Inr (build_payload aqi predicted_aqi analog_value v ppm), []) (\<lambda>payload.
     bind_io (Inr (), [Logged INFO ''Sending data: '' [FDict payload]]) (\<lambda>_.
     bind_io (send_data_to_thingsboard payload (post env)) (\<lambda>_.
     time_sleep 5 (sleep env))))))))"

text \<open>
  \<^verbatim>\<open>while True\<close> never ends by itself. The list holds what the collaborators answer in
  the cycles to come; the result is \<open>None\<close> when every listed cycle ran and the loop is
  still going, and \<open>Some e\<close> when a cycle raised \<open>e\<close>, which ends the loop.
\<close>

fun while_true :: "cycle_env list \<Rightarrow> exn option \<times> event list" where
  "while_true [] = (None, [])"
| "while_true (env # envs) =
     (case cycle env of
        (Inl e, t) \<Rightarrow> (Some e, t)
      | (Inr _, t) \<Rightarrow> (case while_true envs of (r, t') \<Rightarrow> (r, t @ t')))"

datatype loop_state = Running | Terminated

text \<open>The \<^verbatim>\<open>try\<close> statement around the loop, with its two handlers and \<^verbatim>\<open>finally\<close>.\<close>

definition main :: "cycle_env list \<Rightarrow> loop_state \<times> event list" where
  "main envs =
     (case while_true envs of
        (None, t) \<Rightarrow> (Running, t)
      | (Some KeyboardInterrupt, t) \<Rightarrow>
          (Terminated, t @ [Logged INFO ''Program interrupted.'' [],
                            Logged INFO ''Disconnected from ThingsBoard.'' []])
      | (Some e, t) \<Rightarrow>
          (Terminated, t @ [Logged ERROR ''An error occurred: '' [FExn e],
                            Logged INFO ''Disconnected from ThingsBoard.'' []]))"

subsection \<open>A cycle in which every collaborator answers\<close>

text \<open>
  The input of the worked examples below: the converter reads 0, the model's output is
  the array \<^verbatim>\<open>[42]\<close> of rank 1, the endpoint answers 200 and the sleep is not interrupted.
  The examples change one answer at a time.
\<close>

definition quiet_cycle :: cycle_env where
  "quiet_cycle =
     \<lparr>xfer2 = Inr [0, 0, 0], compiled_model = Inr (Arr [Num 42]),
      post = Inr \<lparr>status_code = 200, text_of = []\<rparr>, sleep = Inr ()\<rparr>"

subsection \<open>The line of the specification\<close>

text \<open>
  The specification's words for the AQI mapper: linear interpolation between
  \<open>(x0, y0)\<close> and \<open>(x1, y1)\<close>. This definition follows the specification, not the source;
  \<open>calculate_aqi\<close> is compared with it below.
\<close>

definition interpolate :: "real \<Rightarrow> real \<Rightarrow> real \<Rightarrow> real \<Rightarrow> real \<Rightarrow> real" where
  "interpolate x0 y0 x1 y1 x = y0 + (x - x0) * (y1 - y0) / (x1 - x0)"

section \<open>Properties\<close>

subsection \<open>Auxiliary facts\<close>

lemma aqi_value: "fst (calculate_aqi ppm) = (if 500 < ppm then 500 else ppm / 10)"
  by (simp add: calculate_aqi_def Let_def)

lemma voltage_zero: "voltage 0 = 0"
  by (simp add: voltage_def)

lemma voltage_positive: "0 < raw \<Longrightarrow> 0 < voltage raw"
  by (simp add: voltage_def supply_voltage_def)

lemma voltage_at_most_supply: "raw \<le> 1023 \<Longrightarrow> voltage raw \<le> supply_voltage"
  by (simp add: voltage_def supply_voltage_def)

lemma ratio_closed_form: "raw \<noteq> 0 \<Longrightarrow> ratio raw = (1023 - of_int raw) / of_int raw"
  by (simp add: ratio_def Rs_def voltage_def supply_voltage_def known_resistor_value_def
      R0_def field_simps)

lemma ratio_positive: "0 < raw \<Longrightarrow> raw < 1023 \<Longrightarrow> 0 < ratio raw"
  by (simp add: ratio_closed_form)

lemma calculate_ppm_regular:
  "0 < raw \<Longrightarrow> raw < 1023 \<Longrightarrow>
   fst (calculate_ppm raw) = Inr (10 powr ((log 10 (ratio raw) - 1.2) / (- 0.38)), voltage raw)"
  using ratio_positive [of raw] voltage_positive [of raw]
  by (simp add: calculate_ppm_def log10_def Let_def)

lemma calculate_ppm_returns:
  assumes "0 \<le> raw" "raw < 1023"
  shows "\<exists>ppm v. fst (calculate_ppm raw) = Inr (ppm, v)"
proof (cases "raw = 0")
  case True
  then show ?thesis by (simp add: calculate_ppm_def voltage_zero)
next
  case False
  with assms calculate_ppm_regular [of raw] show ?thesis by simp
qed

lemma calculate_ppm_result:
  "fst (calculate_ppm raw) = Inr (ppm, v) \<Longrightarrow>
   (ppm = 0 \<and> v = 0 \<and> voltage raw = 0) \<or>
   (0 < ratio raw \<and> ppm = 10 powr ((log 10 (ratio raw) - 1.2) / (- 0.38)) \<and> v = voltage raw)"
  by (auto simp: calculate_ppm_def log10_def Let_def split: if_splits)

lemma voltage_512: "voltage 512 = 2816 / 1705"
  by (simp add: voltage_def supply_voltage_def)

lemma Rs_512: "Rs 512 = 9.98046875"
  by (simp add: Rs_def voltage_def supply_voltage_def known_resistor_value_def)

lemma ratio_512: "ratio 512 = 0.998046875"
  by (simp add: ratio_def Rs_512 R0_def)

lemma calculate_ppm_512:
  "fst (calculate_ppm 512) = Inr (10 powr ((log 10 (ratio 512) - 1.2) / (- 0.38)), voltage 512)"
  using calculate_ppm_regular [of 512] by simp

lemma ratio_1023: "ratio 1023 = 0"
  by (simp add: ratio_def Rs_def voltage_def supply_voltage_def)

lemma calculate_ppm_1023: "calculate_ppm 1023 = (Inl ValueError, [])"
proof -
  have "voltage 1023 \<noteq> 0" by (simp add: voltage_def supply_voltage_def)
  then show ?thesis by (simp add: calculate_ppm_def ratio_1023 log10_def)
qed

lemma data_1023: "data [0, 3, 255] = 1023"
  by (simp add: data_def)

lemma data_0: "data [0, 0, 0] = 0"
  by (simp add: data_def)

lemma data_512: "data [0, 2, 0] = 512"
  by (simp add: data_def)

lemma calculate_ppm_0: "fst (calculate_ppm 0) = Inr (0, 0)"
  by (simp add: calculate_ppm_def voltage_zero)

lemma calculate_ppm_512_saturates:
  "500 < 10 powr ((log 10 (ratio 512) - 1.2) / (- 0.38))"
proof -
  have "log 10 (ratio 512) < 0"
    by (simp add: ratio_512)
  then have "(3::real) < (log 10 (ratio 512) - 1.2) / (- 0.38)"
    by (simp add: field_simps)
  then have "(10::real) powr 3 < 10 powr ((log 10 (ratio 512) - 1.2) / (- 0.38))"
    by (rule powr_less_mono) simp
  moreover have "(10::real) powr 3 = 1000"
    by simp
  ultimately show ?thesis by linarith
qed

lemma send_not_200:
  "status_code r \<noteq> 200 \<Longrightarrow>
   send_data_to_thingsboard dat (Inr r) =
     (Inr (), [Post url headers dat,
               Logged ERROR ''Error sending data to ThingsBoard: '' [FVal (Str (text_of r))]])"
  by (simp add: send_data_to_thingsboard_def)

lemma send_raises: "send_data_to_thingsboard dat (Inl e) = (Inl e, [Post url headers dat])"
  by (simp add: send_data_to_thingsboard_def)

lemma while_true_continues:
  "fst (cycle env) = Inr u \<Longrightarrow>
   while_true (env # envs) = (fst (while_true envs), snd (cycle env) @ snd (while_true envs))"
  by (cases "cycle env"; cases "while_true envs") simp

lemma while_true_stops:
  "fst (cycle env) = Inl e \<Longrightarrow> while_true (env # envs) = (Some e, snd (cycle env))"
  by (cases "cycle env") simp

text \<open>
  A cycle whose sample is read and converted and whose model output has a first item
  reaches the publisher with the payload built from those values; nothing was posted and
  nothing slept before.
\<close>

lemma cycle_reaches_publisher:
  assumes "xfer2 env = Inr adc" and "2 < length adc"
    and "fst (calculate_ppm (data adc)) = Inr (ppm, v)"
    and "compiled_model env = Inr result" and "getitem result 0 = Inr predicted"
  shows "\<exists>t. Slept 5 \<notin> set t \<and> (\<forall>u h p. Post u h p \<notin> set t) \<and>
    cycle env =
    (case send_data_to_thingsboard
            (build_payload (fst (calculate_aqi ppm)) predicted (data adc) v ppm) (post env) of
       (Inl e, t') \<Rightarrow> (Inl e, t @ t')
     | (Inr _, t') \<Rightarrow> (sleep env, t @ t' @ [Slept 5]))"
proof -
  let ?t = "snd (read_adc MQ135_CHANNEL (Inr adc)) @ snd (calculate_ppm (data adc)) @
     snd (calculate_aqi ppm) @ snd (predict_aqi_with_ai (data adc) (Inr result)) @
     [Logged INFO ''Sending data: ''
        [FDict (build_payload (fst (calculate_aqi ppm)) predicted (data adc) v ppm)]]"
  from assms(5) have "Slept 5 \<notin> set ?t \<and> (\<forall>u h p. Post u h p \<notin> set ?t)"
    by (auto simp: read_adc_def calculate_ppm_def calculate_aqi_def predict_aqi_with_ai_def
        Let_def split: if_splits sum.splits)
  moreover from assms have "cycle env =
    (case send_data_to_thingsboard
            (build_payload (fst (calculate_aqi ppm)) predicted (data adc) v ppm) (post env) of
       (Inl e, t') \<Rightarrow> (Inl e, ?t @ t')
     | (Inr _, t') \<Rightarrow> (sleep env, ?t @ t' @ [Slept 5]))"
    by (cases "calculate_ppm (data adc)")
      (simp add: cycle_def bind_io_def read_adc_def predict_aqi_with_ai_def time_sleep_def
        split: prod.splits sum.splits)
  ultimately show ?thesis by blast
qed

text \<open>
  Whatever a cycle posts went to the fixed URL and was built by \<open>build_payload\<close>, with the
  first item of the model's output under \<^verbatim>\<open>predictedAqi\<close>.
\<close>

lemma posted_payload:
  "Post u h p \<in> set (snd (cycle env)) \<Longrightarrow>
   u = url \<and> h = headers \<and>
   (\<exists>aqi result predicted a v ppm.
      compiled_model env = Inr result \<and> getitem result 0 = Inr predicted \<and>
      p = build_payload aqi predicted a v ppm)"
  by (auto simp: cycle_def bind_io_def read_adc_def calculate_ppm_def calculate_aqi_def
      log10_def Let_def predict_aqi_with_ai_def send_data_to_thingsboard_def time_sleep_def
      split: prod.splits sum.splits if_splits) blast+

text \<open>
  The posted payload has the five keys; four of them are bound to numbers, and
  \<^verbatim>\<open>predictedAqi\<close> to the first item of the model's output, whatever that is.
\<close>

lemma posted_payload_shape:
  assumes "Post u h p \<in> set (snd (cycle env))"
  shows "map fst p =
      [''airQualityIndex'', ''predictedAqi'', ''mq135_analog_values'', ''mq135_voltage'',
       ''ppm''] \<and>
     (\<exists>result predicted. compiled_model env = Inr result \<and>
        getitem result 0 = Inr predicted \<and> map_of p ''predictedAqi'' = Some predicted) \<and>
     (\<forall>k \<in> {''airQualityIndex'', ''mq135_analog_values'', ''mq135_voltage'', ''ppm''}.
        \<exists>x. map_of p k = Some (Num x))"
proof -
  from posted_payload [OF assms] obtain aqi result predicted a v ppm
    where "compiled_model env = Inr result" "getitem result 0 = Inr predicted"
      "p = build_payload aqi predicted a v ppm"
    by blast
  then show ?thesis by (simp add: build_payload_def)
qed

subsection \<open>The AQI mapper\<close>

text \<open>
  C5. On its non-saturated domain (\<open>ppm \<le> 500\<close>) \<open>calculate_aqi\<close> is the linear
  interpolation between \<open>(0, 0)\<close> and \<open>(500, 50)\<close>, with \<open>calculate_aqi 0 = 0\<close> and
  \<open>calculate_aqi 500 = 50\<close>; for every \<open>ppm\<close> above 500 it returns the ceiling 500.
\<close>

theorem calculate_aqi_interpolates:
  "(ppm \<le> 500 \<longrightarrow> fst (calculate_aqi ppm) = interpolate 0 0 500 50 ppm) \<and>
   fst (calculate_aqi 0) = 0 \<and>
   fst (calculate_aqi 500) = 50 \<and>
   (500 < ppm \<longrightarrow> fst (calculate_aqi ppm) = 500)"
  by (simp add: aqi_value interpolate_def)

theorem calculate_aqi_interpolates_witness:
  "(250::real) \<le> 500 \<and> fst (calculate_aqi 250) = interpolate 0 0 500 50 250 \<and>
   fst (calculate_aqi 250) = 25 \<and>
   (500::real) < 1000 \<and> fst (calculate_aqi 1000) = 500"
  using calculate_aqi_interpolates [of 250] calculate_aqi_interpolates [of 1000]
  by (simp add: interpolate_def)

text \<open>
  C6. The mapping from PPM to AQI is monotonically non-decreasing on \<open>[0, 500]\<close>.
\<close>

theorem calculate_aqi_monotone:
  assumes "0 \<le> ppm1" and "ppm1 \<le> ppm2" and "ppm2 \<le> 500"
  shows "fst (calculate_aqi ppm1) \<le> fst (calculate_aqi ppm2)"
  using assms by (simp add: aqi_value)

theorem calculate_aqi_monotone_witness:
  "(0::real) \<le> 100 \<and> (100::real) \<le> 400 \<and> (400::real) \<le> 500 \<and>
   fst (calculate_aqi 100) \<le> fst (calculate_aqi 400)"
  using calculate_aqi_monotone [of 100 400] by simp

text \<open>
  C10. On non-negative inputs the range of \<open>calculate_aqi\<close> is \<open>[0, 50] \<union> {500}\<close>: no input
  yields an AQI strictly between 50 and 500. The mapping jumps at 500: there it is 50,
  above it is 500, and it is not continuous at that point.
\<close>

theorem calculate_aqi_range:
  "(\<lambda>ppm. fst (calculate_aqi ppm)) ` {ppm. 0 \<le> ppm} = {0..50} \<union> {500} \<and>
   (\<forall>ppm\<ge>0. \<not> (50 < fst (calculate_aqi ppm) \<and> fst (calculate_aqi ppm) < 500)) \<and>
   fst (calculate_aqi 500) = 50 \<and>
   (\<forall>ppm>500. fst (calculate_aqi ppm) = 500) \<and>
   \<not> isCont (\<lambda>ppm. fst (calculate_aqi ppm)) 500"
proof -
  let ?f = "\<lambda>ppm. fst (calculate_aqi ppm)"
  have range: "?f ` {ppm. 0 \<le> ppm} = {0..50} \<union> {500}"
  proof (rule set_eqI, rule iffI)
    fix a
    assume "a \<in> ?f ` {ppm. 0 \<le> ppm}"
    then obtain ppm where "0 \<le> ppm" "a = ?f ppm" by auto
    then show "a \<in> {0..50} \<union> {500}" by (auto simp: aqi_value)
  next
    fix a :: real
    assume "a \<in> {0..50} \<union> {500}"
    then consider "0 \<le> a \<and> a \<le> 50" | "a = 500" by auto
    then show "a \<in> ?f ` {ppm. 0 \<le> ppm}"
    proof cases
      case 1
      then have "a = ?f (10 * a)" "10 * a \<in> {ppm. 0 \<le> ppm}" by (auto simp: aqi_value)
      then show ?thesis by (rule image_eqI)
    next
      case 2
      then have "a = ?f 501" "(501::real) \<in> {ppm. 0 \<le> ppm}" by (auto simp: aqi_value)
      then show ?thesis by (rule image_eqI)
    qed
  qed
  have jump: "\<not> isCont ?f 500"
  proof
    assume "isCont ?f 500"
    then have "\<exists>d>0. \<forall>x. x \<noteq> 500 \<and> dist x 500 < d \<longrightarrow> dist (?f x) (?f 500) < 1"
      unfolding isCont_def LIM_def by simp
    then obtain d where d: "0 < d"
      and near: "\<forall>x. x \<noteq> 500 \<and> dist x 500 < d \<longrightarrow> dist (?f x) (?f 500) < 1"
      by blast
    from d have "500 + d / 2 \<noteq> 500 \<and> dist (500 + d / 2) 500 < d"
      by (simp add: dist_real_def)
    with near have "dist (?f (500 + d / 2)) (?f 500) < 1" by blast
    with d show False by (simp add: aqi_value dist_real_def)
  qed
  from range jump show ?thesis by (simp add: aqi_value)
qed

theorem calculate_aqi_range_witness:
  "(0::real) \<le> 4999 \<and> \<not> (50 < fst (calculate_aqi 4999) \<and> fst (calculate_aqi 4999) < 500) \<and>
   (501::real) > 500 \<and> fst (calculate_aqi 501) = 500 \<and> fst (calculate_aqi 500) = 50"
  using calculate_aqi_range by simp

subsection \<open>The chemistry converter\<close>

text \<open>
  C7. \<open>calculate_ppm 0\<close> returns ppm 0 and voltage 0 and raises nothing; its only effect
  is the warning. The guard on the zero voltage returns before the division by it.
\<close>

theorem calculate_ppm_zero:
  "voltage 0 = 0 \<and>
   calculate_ppm 0 = (Inr (0, 0), [Logged WARNING ''Voltage is zero, check sensor wiring.'' []])"
  by (simp add: calculate_ppm_def voltage_zero)

text \<open>
  C8. For a raw sample in \<open>[0, 1023]\<close> that is positive, the voltage that
  \<open>calculate_ppm\<close> computes is \<open>raw / 1023 * supply_voltage\<close> and lies in
  \<open>(0, supply_voltage]\<close>; it is the voltage the function returns whenever it returns.
\<close>

theorem voltage_range:
  assumes "0 < raw" and "raw \<le> 1023"
  shows "voltage raw = of_int raw / 1023 * supply_voltage \<and>
         0 < voltage raw \<and> voltage raw \<le> supply_voltage \<and>
         (\<forall>ppm v. fst (calculate_ppm raw) = Inr (ppm, v) \<longrightarrow> v = voltage raw)"
proof -
  have "voltage raw = of_int raw / 1023 * supply_voltage"
    by (simp add: voltage_def)
  moreover from assms have "0 < voltage raw" "voltage raw \<le> supply_voltage"
    by (simp_all add: voltage_positive voltage_at_most_supply)
  moreover have "v = voltage raw" if "fst (calculate_ppm raw) = Inr (ppm, v)" for ppm v
    using calculate_ppm_result [OF that] by auto
  ultimately show ?thesis by blast
qed

theorem voltage_range_witness:
  "(0::int) < 512 \<and> (512::int) \<le> 1023 \<and>
   voltage 512 = 512 / 1023 * supply_voltage \<and> 0 < voltage 512 \<and>
   voltage 512 \<le> supply_voltage \<and>
   fst (calculate_ppm 512) = Inr (10 powr ((log 10 (ratio 512) - 1.2) / (- 0.38)), voltage 512)"
  using voltage_range [of 512] calculate_ppm_512 by simp

text \<open>
  C2, as the specification states it: at raw sample 512 the sensor resistance is
  \<open>9.992...\<close> and the ratio \<open>0.999...\<close>. The source computes \<open>9.98046875\<close> and
  \<open>0.998046875\<close>, more than a hundredth away from the stated resistance.
\<close>

theorem fixture_512_counterexample:
  "Rs 512 = 9.98046875 \<and> \<not> (9.992 \<le> Rs 512 \<and> Rs 512 < 9.993) \<and> 0.01 < \<bar>Rs 512 - 9.992\<bar> \<and>
   ratio 512 = 0.998046875 \<and> \<not> (0.999 \<le> ratio 512 \<and> ratio 512 < 1)"
  by (simp add: Rs_512 ratio_512)

text \<open>
  C2, amended. At raw sample 512 the voltage is \<open>2816 / 1705 = 1.651...\<close>, the sensor
  resistance is \<open>9.98046875\<close>, the ratio is \<open>0.998046875\<close>, and \<open>calculate_ppm\<close> returns
  \<open>10 powr ((log 10 ratio - 1.2) / (- 0.38))\<close> on that ratio, with that voltage.
\<close>

theorem fixture_512:
  "voltage 512 = 2816 / 1705 \<and> 1.651 \<le> voltage 512 \<and> voltage 512 < 1.652 \<and>
   Rs 512 = 9.98046875 \<and>
   ratio 512 = 0.998046875 \<and>
   fst (calculate_ppm 512) = Inr (10 powr ((log 10 (ratio 512) - 1.2) / (- 0.38)), voltage 512)"
  using calculate_ppm_regular [of 512] by (simp add: voltage_512 Rs_512 ratio_512)

text \<open>
  C3. A raw sample in \<open>[0, 1023]\<close> makes the ratio non-positive: at 1023 the sensor
  resistance and the ratio are 0, \<open>log10\<close> raises, and \<open>calculate_ppm\<close> raises with it. The
  converter can deliver that sample (bytes 3 and 255), nothing in the loop handles the
  exception, and the program ends in the cycle that read it.
\<close>

theorem calculate_ppm_not_total:
  "(\<exists>raw. 0 \<le> raw \<and> raw \<le> 1023 \<and> ratio raw \<le> 0 \<and>
      log10 (ratio raw) = Inl ValueError \<and> fst (calculate_ppm raw) = Inl ValueError) \<and>
   Rs 1023 = 0 \<and> ratio 1023 = 0 \<and>
   calculate_ppm 1023 = (Inl ValueError, []) \<and>
   fst (read_adc MQ135_CHANNEL (Inr [0, 3, 255])) = Inr 1023 \<and>
   main (env\<lparr>xfer2 := Inr [0, 3, 255]\<rparr> # envs) =
     (Terminated,
      [Xfer2 [1, 128, 0],
       Logged INFO ''Read ADC value: '' [FVal (Num 1023)],
       Logged ERROR ''An error occurred: '' [FExn ValueError],
       Logged INFO ''Disconnected from ThingsBoard.'' []])"
proof -
  have rs: "Rs 1023 = 0"
    by (simp add: Rs_def voltage_def supply_voltage_def)
  have ex: "\<exists>raw. 0 \<le> raw \<and> raw \<le> 1023 \<and> ratio raw \<le> 0 \<and>
      log10 (ratio raw) = Inl ValueError \<and> fst (calculate_ppm raw) = Inl ValueError"
    by (rule exI [of _ 1023]) (simp add: ratio_1023 log10_def calculate_ppm_1023)
  have rd: "fst (read_adc MQ135_CHANNEL (Inr [0, 3, 255])) = Inr 1023"
    by (simp add: read_adc_def data_1023)
  have cy: "cycle (env\<lparr>xfer2 := Inr [0, 3, 255]\<rparr>) =
      (Inl ValueError,
       [Xfer2 [1, 128, 0], Logged INFO ''Read ADC value: '' [FVal (Num 1023)]])"
    by (simp add: cycle_def bind_io_def read_adc_def data_1023 calculate_ppm_1023
        MQ135_CHANNEL_def)
  have "main (env\<lparr>xfer2 := Inr [0, 3, 255]\<rparr> # envs) =
     (Terminated,
      [Xfer2 [1, 128, 0],
       Logged INFO ''Read ADC value: '' [FVal (Num 1023)],
       Logged ERROR ''An error occurred: '' [FExn ValueError],
       Logged INFO ''Disconnected from ThingsBoard.'' []])"
    by (simp add: main_def cy)
  with ex rs rd show ?thesis by (simp add: ratio_1023 calculate_ppm_1023)
qed

text \<open>
  C4. For every raw sample in \<open>[0, 1023]\<close> on which \<open>calculate_ppm\<close> returns, the AQI of
  the returned ppm lies in \<open>[0, 500]\<close> and the returned voltage in \<open>[0, supply_voltage]\<close>;
  the returned ppm is 0 or a positive power of ten.
\<close>

theorem pipeline_ranges:
  assumes "0 \<le> raw" and "raw \<le> 1023" and "fst (calculate_ppm raw) = Inr (ppm, v)"
  shows "0 \<le> fst (calculate_aqi ppm) \<and> fst (calculate_aqi ppm) \<le> 500 \<and>
         0 \<le> v \<and> v \<le> supply_voltage \<and>
         (ppm = 0 \<or> (\<exists>x. ppm = 10 powr x \<and> 0 < ppm))"
proof -
  from calculate_ppm_result [OF assms(3)]
  have shape: "ppm = 0 \<or> (\<exists>x. ppm = 10 powr x \<and> 0 < ppm)"
    and volt: "v = 0 \<or> v = voltage raw"
    by auto
  from shape have "0 \<le> ppm" by auto
  then have aqi: "0 \<le> fst (calculate_aqi ppm) \<and> fst (calculate_aqi ppm) \<le> 500"
    by (simp add: aqi_value)
  from volt assms(1,2) have "0 \<le> v \<and> v \<le> supply_voltage"
    by (auto simp: voltage_def supply_voltage_def)
  with aqi shape show ?thesis by simp
qed

theorem pipeline_ranges_witness:
  "(0::int) \<le> 512 \<and> (512::int) \<le> 1023 \<and>
   fst (calculate_ppm 512) = Inr (10 powr ((log 10 (ratio 512) - 1.2) / (- 0.38)), voltage 512) \<and>
   0 \<le> fst (calculate_aqi (10 powr ((log 10 (ratio 512) - 1.2) / (- 0.38)))) \<and>
   fst (calculate_aqi (10 powr ((log 10 (ratio 512) - 1.2) / (- 0.38)))) \<le> 500 \<and>
   0 \<le> voltage 512 \<and> voltage 512 \<le> supply_voltage"
  using pipeline_ranges [OF _ _ calculate_ppm_512] calculate_ppm_512 by simp

subsection \<open>The publisher and the loop\<close>

text \<open>
  C1, as the specification states it: a network error raised by the POST is recovered
  inside the publisher and the loop goes on. In the source the publisher has no handler:
  the exception leaves it, ends the loop in that cycle, and the cycle after it never
  runs; the only log line is the one of the handler around the loop.
\<close>

theorem network_error_counterexample:
  "fst (send_data_to_thingsboard (build_payload 0 (Num 42) 0 0 0)
     (Inl (Fault ''ConnectionError''))) = Inl (Fault ''ConnectionError'') \<and>
   main [quiet_cycle\<lparr>post := Inl (Fault ''ConnectionError'')\<rparr>, quiet_cycle] =
    (Terminated,
     [Xfer2 [1, 128, 0],
      Logged INFO ''Read ADC value: '' [FVal (Num 0)],
      Logged WARNING ''Voltage is zero, check sensor wiring.'' [],
      Logged INFO ''Calculated AQI: '' [FVal (Num 0)],
      Infer [[[0]]],
      Logged INFO ''Predicted AQI using AI: '' [FVal (Num 42)],
      Logged INFO ''Sending data: '' [FDict (build_payload 0 (Num 42) 0 0 0)],
      Post url headers (build_payload 0 (Num 42) 0 0 0),
      Logged ERROR ''An error occurred: '' [FExn (Fault ''ConnectionError'')],
      Logged INFO ''Disconnected from ThingsBoard.'' []])"
  by (simp add: main_def quiet_cycle_def cycle_def bind_io_def read_adc_def data_0
      calculate_ppm_def voltage_zero calculate_aqi_def predict_aqi_with_ai_def
      send_data_to_thingsboard_def time_sleep_def MQ135_CHANNEL_def)

text \<open>
  C1, amended. In a cycle that reaches the publisher: a response other than 200 is
  recovered locally. The publisher logs the error with the response body, posts once and
  raises nothing; the cycle ends with the sleep of 5 seconds and, unless that sleep is
  interrupted, the next iteration runs. A network error raised by the POST is not
  recovered locally: it leaves the publisher, the cycle does not sleep, and the loop ends
  without a further iteration. The handler around the loop logs the exception as an
  error (an interrupt as the interruption), the \<^verbatim>\<open>finally\<close> clause logs the disconnection,
  and the program is terminated.
\<close>

theorem delivery_failure_recovery:
  assumes "xfer2 env = Inr adc" and "2 < length adc"
    and "fst (calculate_ppm (data adc)) = Inr (ppm, v)"
    and "compiled_model env = Inr result" and "getitem result 0 = Inr predicted"
    and "payload = build_payload (fst (calculate_aqi ppm)) predicted (data adc) v ppm"
  shows
    "(\<forall>r. post env = Inr r \<and> status_code r \<noteq> 200 \<longrightarrow>
        send_data_to_thingsboard payload (post env) =
          (Inr (), [Post url headers payload,
                    Logged ERROR ''Error sending data to ThingsBoard: ''
                      [FVal (Str (text_of r))]]) \<and>
        (\<exists>t. (\<forall>u h p. Post u h p \<notin> set t) \<and>
           snd (cycle env) =
             t @ [Post url headers payload,
                  Logged ERROR ''Error sending data to ThingsBoard: ''
                    [FVal (Str (text_of r))],
                  Slept 5]) \<and>
        (sleep env = Inr () \<longrightarrow>
           fst (cycle env) = Inr () \<and>
           while_true (env # envs) =
             (fst (while_true envs), snd (cycle env) @ snd (while_true envs)))) \<and>
     (\<forall>e. post env = Inl e \<longrightarrow>
        send_data_to_thingsboard payload (post env) = (Inl e, [Post url headers payload]) \<and>
        fst (cycle env) = Inl e \<and>
        Slept 5 \<notin> set (snd (cycle env)) \<and>
        while_true (env # envs) = (Some e, snd (cycle env)) \<and>
        fst (main (env # envs)) = Terminated \<and>
        main (env # envs) =
          (Terminated,
           snd (cycle env) @
           [if e = KeyboardInterrupt then Logged INFO ''Program interrupted.'' []
            else Logged ERROR ''An error occurred: '' [FExn e],
            Logged INFO ''Disconnected from ThingsBoard.'' []]))"
proof -
  from cycle_reaches_publisher [OF assms(1-5)] assms(6)
  obtain t where t: "Slept 5 \<notin> set t" "\<forall>u h p. Post u h p \<notin> set t"
    and cyc: "cycle env =
      (case send_data_to_thingsboard payload (post env) of
         (Inl e, t') \<Rightarrow> (Inl e, t @ t')
       | (Inr _, t') \<Rightarrow> (sleep env, t @ t' @ [Slept 5]))"
    by auto
  show ?thesis
  proof (intro conjI allI impI)
    fix r
    assume r: "post env = Inr r \<and> status_code r \<noteq> 200"
    then show s: "send_data_to_thingsboard payload (post env) =
        (Inr (), [Post url headers payload,
                  Logged ERROR ''Error sending data to ThingsBoard: ''
                    [FVal (Str (text_of r))]])"
      by (simp add: send_not_200)
    with cyc have c: "cycle env = (sleep env, t @ [Post url headers payload,
        Logged ERROR ''Error sending data to ThingsBoard: '' [FVal (Str (text_of r))],
        Slept 5])"
      by simp
    with t(2) show "\<exists>t. (\<forall>u h p. Post u h p \<notin> set t) \<and>
        snd (cycle env) =
          t @ [Post url headers payload,
               Logged ERROR ''Error sending data to ThingsBoard: ''
                 [FVal (Str (text_of r))],
               Slept 5]"
      by auto
    assume "sleep env = Inr ()"
    with c show "fst (cycle env) = Inr ()"
      by simp
    then show "while_true (env # envs) =
        (fst (while_true envs), snd (cycle env) @ snd (while_true envs))"
      by (rule while_true_continues)
  next
    fix e
    assume e: "post env = Inl e"
    then show s: "send_data_to_thingsboard payload (post env) =
        (Inl e, [Post url headers payload])"
      by (simp add: send_raises)
    with cyc have c: "cycle env = (Inl e, t @ [Post url headers payload])"
      by simp
    then show "fst (cycle env) = Inl e"
      by simp
    then show w: "while_true (env # envs) = (Some e, snd (cycle env))"
      by (rule while_true_stops)
    then show "fst (main (env # envs)) = Terminated"
      by (simp add: main_def split: exn.splits)
    from w show "main (env # envs) =
        (Terminated,
         snd (cycle env) @
         [if e = KeyboardInterrupt then Logged INFO ''Program interrupted.'' []
          else Logged ERROR ''An error occurred: '' [FExn e],
          Logged INFO ''Disconnected from ThingsBoard.'' []])"
      by (cases e) (simp_all add: main_def)
    from c t(1) show "Slept 5 \<notin> set (snd (cycle env))"
      by simp
  qed
qed

theorem delivery_failure_recovery_witness:
  "fst (cycle (quiet_cycle\<lparr>post :=
      Inr \<lparr>status_code = 500, text_of = ''Internal Server Error''\<rparr>\<rparr>)) = Inr () \<and>
   while_true [quiet_cycle\<lparr>post :=
      Inr \<lparr>status_code = 500, text_of = ''Internal Server Error''\<rparr>\<rparr>, quiet_cycle] =
     (None,
      snd (cycle (quiet_cycle\<lparr>post :=
        Inr \<lparr>status_code = 500, text_of = ''Internal Server Error''\<rparr>\<rparr>)) @
      snd (cycle quiet_cycle)) \<and>
   fst (cycle (quiet_cycle\<lparr>post := Inl (Fault ''ConnectionError'')\<rparr>)) =
     Inl (Fault ''ConnectionError'') \<and>
   main [quiet_cycle\<lparr>post := Inl (Fault ''ConnectionError'')\<rparr>, quiet_cycle] =
     (Terminated,
      snd (cycle (quiet_cycle\<lparr>post := Inl (Fault ''ConnectionError'')\<rparr>)) @
      [Logged ERROR ''An error occurred: '' [FExn (Fault ''ConnectionError'')],
       Logged INFO ''Disconnected from ThingsBoard.'' []])"
proof -
  let ?bad = "quiet_cycle\<lparr>post :=
      Inr \<lparr>status_code = 500, text_of = ''Internal Server Error''\<rparr>\<rparr>"
  let ?down = "quiet_cycle\<lparr>post := Inl (Fault ''ConnectionError'')\<rparr>"
  have p: "fst (calculate_ppm (data [0, 0, 0])) = Inr (0, 0)"
    by (simp add: data_0 calculate_ppm_0)
  have g: "getitem (Arr [Num 42]) 0 = Inr (Num 42)"
    by simp
  have q: "fst (cycle quiet_cycle) = Inr ()"
    by (simp add: quiet_cycle_def cycle_def bind_io_def read_adc_def data_0 calculate_ppm_def
        voltage_zero calculate_aqi_def predict_aqi_with_ai_def send_data_to_thingsboard_def
        time_sleep_def)
  have "while_true [quiet_cycle] = (None, snd (cycle quiet_cycle))"
    using while_true_continues [OF q, of "[]"] by simp
  moreover note
    delivery_failure_recovery [of ?bad "[0, 0, 0]" 0 0 "Arr [Num 42]" "Num 42" _
      "[quiet_cycle]", OF _ _ p _ g refl]
    delivery_failure_recovery [of ?down "[0, 0, 0]" 0 0 "Arr [Num 42]" "Num 42" _
      "[quiet_cycle]", OF _ _ p _ g refl]
  ultimately show ?thesis by (simp add: quiet_cycle_def)
qed

text \<open>
  C9. The claim: every payload handed to the publisher binds each of the five keys to a
  number. The source indexes the model's output once. On an output of rank 2, one sample
  by one feature, \<^verbatim>\<open>result[0]\<close> is the row, an array of rank 1, and that array is what
  the payload binds \<^verbatim>\<open>predictedAqi\<close> to: the payload has the five keys, and one of them is
  not bound to a number. Run here at raw sample 0 and model output \<^verbatim>\<open>[[42]]\<close>, with
  \<^verbatim>\<open>requests.post\<close> unable to encode the array: the program ends in its first cycle.
\<close>

theorem predicted_aqi_is_an_array:
  "main [quiet_cycle\<lparr>compiled_model := Inr (Arr [Arr [Num 42]]),
                     post := Inl (Fault ''TypeError'')\<rparr>, quiet_cycle] =
    (Terminated,
     [Xfer2 [1, 128, 0],
      Logged INFO ''Read ADC value: '' [FVal (Num 0)],
      Logged WARNING ''Voltage is zero, check sensor wiring.'' [],
      Logged INFO ''Calculated AQI: '' [FVal (Num 0)],
      Infer [[[0]]],
      Logged INFO ''Predicted AQI using AI: '' [FVal (Arr [Num 42])],
      Logged INFO ''Sending data: ''
        [FDict [(''airQualityIndex'', Num 0), (''predictedAqi'', Arr [Num 42]),
                (''mq135_analog_values'', Num 0), (''mq135_voltage'', Num 0),
                (''ppm'', Num 0)]],
      Post url headers
        [(''airQualityIndex'', Num 0), (''predictedAqi'', Arr [Num 42]),
         (''mq135_analog_values'', Num 0), (''mq135_voltage'', Num 0),
         (''ppm'', Num 0)],
      Logged ERROR ''An error occurred: '' [FExn (Fault ''TypeError'')],
      Logged INFO ''Disconnected from ThingsBoard.'' []]) \<and>
   map_of (build_payload 0 (Arr [Num 42]) 0 0 0) ''predictedAqi'' = Some (Arr [Num 42]) \<and>
   \<not> is_number (Arr [Num 42])"
  by (simp add: main_def quiet_cycle_def cycle_def bind_io_def read_adc_def data_0
      calculate_ppm_def voltage_zero calculate_aqi_def predict_aqi_with_ai_def
      send_data_to_thingsboard_def time_sleep_def MQ135_CHANNEL_def build_payload_def)

end
